theory Spec2Isabelle
  imports Main
begin

section \<open>Product catalog service: data model\<close>

text \<open>
  The handlers \<open>update_products\<close>, \<open>delete_products\<close> and the two definitions of
  \<open>list_products\<close> are embedded from \<^verbatim>\<open>tests/test_routes.py\<close> (lines 234--324).
  That module imports \<open>app\<close>, \<open>status\<close> and \<open>Product\<close> and never binds \<open>request\<close>,
  \<open>Category\<close>, \<open>abort\<close> or \<open>check_content_type\<close>, which the handlers read as
  global names: the names a handler reads are part of the model, and reading an
  unbound one raises \<open>NameError\<close>.
  The module \<^verbatim>\<open>service/models.py\<close> (the \<open>Product\<close> class, the \<open>Category\<close>
  enumeration), the helper \<open>check_content_type\<close>, the handler for
  \<^verbatim>\<open>GET /products/<id>\<close> and the error handlers are not among the sources; each of
  them is modelled from the specification and marked so.
\<close>

subsection \<open>Strings\<close>

text \<open>
  \<open>lower\<close> is Python's \<open>str.lower\<close> on ASCII letters; every other character is
  left as it is. The handlers use it only in the test
  \<^verbatim>\<open>available.lower() in ["true", "yes", "1"]\<close>, whose words are made of characters
  that no character outside ASCII lowers to. \<open>str.upper\<close> maps characters outside
  ASCII to ASCII letters (the long s to \<open>S\<close>), so it is not defined here: the
  handler that calls it takes it as a parameter, and \<open>ascii_upper\<close> is its
  restriction to ASCII strings, for the examples.
\<close>

definition ascii_uppercase :: string where
  "ascii_uppercase = ''ABCDEFGHIJKLMNOPQRSTUVWXYZ''"

definition ascii_lowercase :: string where
  "ascii_lowercase = ''abcdefghijklmnopqrstuvwxyz''"

definition lower_char :: "char \<Rightarrow> char" where
  "lower_char c =
     (case map_of (zip ascii_uppercase ascii_lowercase) c of Some d \<Rightarrow> d | None \<Rightarrow> c)"

definition upper_char :: "char \<Rightarrow> char" where
  "upper_char c =
     (case map_of (zip ascii_lowercase ascii_uppercase) c of Some d \<Rightarrow> d | None \<Rightarrow> c)"

definition lower :: "string \<Rightarrow> string" where
  "lower s = map lower_char s"

definition ascii_upper :: "string \<Rightarrow> string" where
  "ascii_upper s = map upper_char s"

text \<open>Decimal digits, and \<open>str(n)\<close> of a non-negative Python integer.\<close>

definition digit_chars :: string where
  "digit_chars = ''0123456789''"

definition digit_char :: "nat \<Rightarrow> char" where
  "digit_char d = digit_chars ! (d mod 10)"

definition digit_val :: "char \<Rightarrow> nat option" where
  "digit_val c = map_of (zip digit_chars [0..<10]) c"

function str_nat :: "nat \<Rightarrow> string" where
  "str_nat n = (if n < 10 then [digit_char n] else str_nat (n div 10) @ [digit_char (n mod 10)])"
  by pat_completeness auto
termination
  by (relation "measure (\<lambda>n. n)") auto

declare str_nat.simps [simp del]

fun parse_digits :: "string \<Rightarrow> nat \<Rightarrow> nat option" where
  "parse_digits [] acc = Some acc"
| "parse_digits (c # cs) acc =
     (case digit_val c of None \<Rightarrow> None | Some d \<Rightarrow> parse_digits cs (10 * acc + d))"

definition parse_nat :: "string \<Rightarrow> nat option" where
  "parse_nat s = (if s = [] then None else parse_digits s 0)"

subsection \<open>Decimal prices\<close>

text \<open>
  Modelled from the spec: the type of \<open>price\<close>, "decimal currency amount; required,
  serialized as a string to preserve precision", which "must be parseable as a decimal".
  A decimal is a sign, a coefficient and the number of digits after the point;
  \<open>str_decimal\<close> writes it in plain notation (\<open>12.50\<close>, \<open>-0.05\<close>, \<open>7\<close>) and
  \<open>parse_decimal\<close> reads that notation: an optional minus sign, digits, and
  optionally a point followed by digits.
\<close>

datatype decimal = Decimal (negative: bool) (coefficient: nat) (places: nat)

definition pad_zeros :: "nat \<Rightarrow> string \<Rightarrow> string" where
  "pad_zeros n ds = replicate (n - length ds) (CHR ''0'') @ ds"

definition str_decimal :: "decimal \<Rightarrow> string" where
  "str_decimal d =
     (let ds = pad_zeros (Suc (places d)) (str_nat (coefficient d));
          k = length ds - places d
      in (if negative d then ''-'' else '''') @
         (if places d = 0 then ds else take k ds @ ''.'' @ drop k ds))"

definition parse_unsigned :: "bool \<Rightarrow> string \<Rightarrow> decimal option" where
  "parse_unsigned neg r =
     (let ip = takeWhile (\<lambda>c. c \<noteq> CHR ''.'') r;
          rest = dropWhile (\<lambda>c. c \<noteq> CHR ''.'') r
      in case rest of
           [] \<Rightarrow> (case parse_nat ip of None \<Rightarrow> None | Some c \<Rightarrow> Some (Decimal neg c 0))
         | _ # fp \<Rightarrow>
             if ip = [] \<or> fp = [] then None
             else (case parse_digits (ip @ fp) 0 of
                     None \<Rightarrow> None
                   | Some c \<Rightarrow> Some (Decimal neg c (length fp))))"

definition parse_decimal :: "string \<Rightarrow> decimal option" where
  "parse_decimal s =
     (case s of
        [] \<Rightarrow> None
      | c # r \<Rightarrow> if c = CHR ''-'' then parse_unsigned True r else parse_unsigned False s)"

subsection \<open>JSON values, requests and responses\<close>

datatype json =
    JNull
  | JBool bool
  | JNum int
  | JStr string
  | JArr "json list"
  | JObj "(string \<times> json) list"

text \<open>\<open>data["key"]\<close> on a parsed body: \<open>None\<close> stands for Python's \<open>KeyError\<close>.\<close>

fun json_get :: "json \<Rightarrow> string \<Rightarrow> json option" where
  "json_get (JObj kvs) k = map_of kvs k"
| "json_get _ k = None"

text \<open>
  What a handler returns: a body and a status code. A body is a JSON value (a
  \<open>dict\<close> or a \<open>list\<close>, which Flask turns into JSON) or a text (\<open>""\<close> in
  \<open>delete_products\<close>).
\<close>

datatype body = JsonBody json | TextBody string

type_synonym response = "body \<times> nat"

text \<open>
  What a handler raises: \<open>abort(status, message)\<close> raises an \<open>HTTPException\<close>;
  the model layer raises \<open>DataValidationError\<close>; \<open>getattr\<close> raises
  \<open>AttributeError\<close>, carrying the name that was looked up; reading a global name
  that the module does not bind raises \<open>NameError\<close>, carrying the name.
\<close>

datatype error =
    HTTPException nat string
  | DataValidationError string
  | AttributeError string
  | NameError string

text \<open>
  The part of a Flask request the handlers read: the \<open>Content-Type\<close> header
  (\<open>None\<close> when the header is missing) and the body as parsed by
  \<open>request.get_json()\<close> (\<open>None\<close> when the body is not JSON, where Flask raises
  \<open>BadRequest\<close>, status 400, with Werkzeug's description of that exception).
\<close>

record request =
  content_type :: "string option"
  json_body :: "json option"

definition BadRequest_description :: string where
  "BadRequest_description =
     ''The browser (or proxy) sent a request that this server could not understand.''"

definition get_json :: "request \<Rightarrow> error + json" where
  "get_json req =
     (case json_body req of
        None \<Rightarrow> Inl (HTTPException 400 BadRequest_description)
      | Some data \<Rightarrow> Inr data)"

subsection \<open>The Product entity\<close>

text \<open>
  Modelled from the spec: the \<open>Product\<close> record of \<^verbatim>\<open>service/models.py\<close>
  (section 3 of the specification). The field \<open>id\<close> is \<open>None\<close> until storage
  assigns it. The \<open>Category\<close> enumeration is not among the sources either and the
  specification names only some of its members, so the enumeration is a parameter
  of the model: the list \<open>Category\<close> of its member names; a member is identified
  with its name.
\<close>

record product =
  id' :: "nat option"
  name :: string
  description :: string
  price :: decimal
  available :: bool
  category :: string

text \<open>
  \<open>getattr(Category, s)\<close>: the member named \<open>s\<close>, or \<open>AttributeError\<close>.
\<close>

definition getattr :: "string list \<Rightarrow> string \<Rightarrow> error + string" where
  "getattr Category s = (if s \<in> set Category then Inr s else Inl (AttributeError s))"

text \<open>
  Modelled from the spec: \<open>Product.serialize\<close>, which "produces a mapping with keys
  id, name, description, price, available, category; price emitted as a string,
  category emitted as its name string".
\<close>

definition serialize :: "product \<Rightarrow> json" where
  "serialize p =
     JObj [(''id'', case id' p of None \<Rightarrow> JNull | Some i \<Rightarrow> JNum (int i)),
           (''name'', JStr (name p)),
           (''description'', JStr (description p)),
           (''price'', JStr (str_decimal (price p))),
           (''available'', JBool (available p)),
           (''category'', JStr (category p))]"

text \<open>
  Modelled from the spec: \<open>Product.deserialize\<close>, which "populates fields from a
  mapping; fails with a validation error when name is missing, when category is
  missing or not a recognized enumeration member, or when price/available cannot
  be coerced to their expected types. Unknown/extra keys are ignored." By section 3
  a name is a non-empty text and a description is optional: a payload without
  \<open>description\<close> leaves the field as it is. The field \<open>id\<close> is not read.
\<close>

definition coerce_price :: "json \<Rightarrow> decimal option" where
  "coerce_price v =
     (case v of
        JStr s \<Rightarrow> parse_decimal s
      | JNum n \<Rightarrow> Some (Decimal (n < 0) (nat \<bar>n\<bar>) 0)
      | _ \<Rightarrow> None)"

definition deserialize :: "string list \<Rightarrow> product \<Rightarrow> json \<Rightarrow> error + product" where
  "deserialize Category p data =
     (case json_get data ''name'' of
        Some (JStr n) \<Rightarrow>
          if n = [] then Inl (DataValidationError ''name'')
          else
            (case (case json_get data ''description'' of
                     None \<Rightarrow> Some (description p)
                   | Some (JStr d) \<Rightarrow> Some d
                   | Some _ \<Rightarrow> None) of
               None \<Rightarrow> Inl (DataValidationError ''description'')
             | Some d \<Rightarrow>
                 (case Option.bind (json_get data ''price'') coerce_price of
                    None \<Rightarrow> Inl (DataValidationError ''price'')
                  | Some pr \<Rightarrow>
                      (case json_get data ''available'' of
                         Some (JBool a) \<Rightarrow>
                           (case json_get data ''category'' of
                              Some (JStr c) \<Rightarrow>
                                (case getattr Category c of
                                   Inl e \<Rightarrow> Inl (DataValidationError ''category'')
                                 | Inr cv \<Rightarrow>
                                     Inr (p\<lparr>name := n, description := d, price := pr,
                                            available := a, category := cv\<rparr>))
                            | _ \<Rightarrow> Inl (DataValidationError ''category''))
                       | _ \<Rightarrow> Inl (DataValidationError ''available''))))
      | _ \<Rightarrow> Inl (DataValidationError ''name''))"

subsection \<open>The persistence gateway\<close>

text \<open>
  Modelled from the spec: the storage operations of \<open>Product\<close> (section 4.2 and
  \<open>update\<close>, \<open>delete\<close> of section 4.1). The store is the list of the rows of the one
  table. \<open>all\<close> "returns every record"; \<open>find\<close> "returns the record with that id, or a
  not-found result"; \<open>find_by_name\<close>, \<open>find_by_category\<close> and
  \<open>find_by_availability\<close> are exact-match lookups; \<open>update\<close> "persists in-place
  changes to an existing record identified by its current id; fails if the record
  has no assigned id"; \<open>delete\<close> "removes the record if present; no-op if absent".
\<close>

type_synonym store = "product list"

definition Product_all :: "store \<Rightarrow> product list" where
  "Product_all st = st"

definition Product_find :: "store \<Rightarrow> nat \<Rightarrow> product option" where
  "Product_find st i = find (\<lambda>p. id' p = Some i) st"

definition Product_find_by_name :: "store \<Rightarrow> string \<Rightarrow> product list" where
  "Product_find_by_name st n = filter (\<lambda>p. name p = n) st"

definition Product_find_by_category :: "store \<Rightarrow> string \<Rightarrow> product list" where
  "Product_find_by_category st c = filter (\<lambda>p. category p = c) st"

definition Product_find_by_availability :: "store \<Rightarrow> bool \<Rightarrow> product list" where
  "Product_find_by_availability st a = filter (\<lambda>p. available p = a) st"

definition Product_update :: "store \<Rightarrow> product \<Rightarrow> error + store" where
  "Product_update st p =
     (case id' p of
        None \<Rightarrow> Inl (DataValidationError ''Update called with empty ID field'')
      | Some i \<Rightarrow> Inr (map (\<lambda>q. if id' q = Some i then p else q) st))"

definition Product_delete :: "store \<Rightarrow> product \<Rightarrow> store" where
  "Product_delete st p = filter (\<lambda>q. id' q \<noteq> id' p) st"

section \<open>Request handlers\<close>

subsection \<open>Global names\<close>

text \<open>
  A handler reads its free names in the globals of the module that defines it, at
  the moment the line runs. \<open>need G ns k\<close> reads the names \<open>ns\<close> in that order in
  the globals \<open>G\<close> (the list of the names bound there) and goes on with \<open>k\<close>; the
  first name that is not bound raises \<open>NameError\<close>.
\<close>

type_synonym globals = "string list"

fun need :: "globals \<Rightarrow> string list \<Rightarrow> error + 'a \<Rightarrow> error + 'a" where
  "need G [] k = k"
| "need G (n # ns) k = (if n \<in> set G then need G ns k else Inl (NameError n))"

text \<open>
  The names \<^verbatim>\<open>tests/test_routes.py\<close> binds: its imports (lines 27--35), the two
  constants (lines 42--45) and the test class. None of \<open>request\<close>, \<open>Category\<close>,
  \<open>abort\<close> and \<open>check_content_type\<close> is among them, and none is a builtin.
\<close>

definition test_routes_globals :: globals where
  "test_routes_globals =
     [''logging'', ''os'', ''Decimal'', ''TestCase'', ''app'', ''status'', ''Product'',
      ''db'', ''init_db'', ''ProductFactory'', ''DATABASE_URI'', ''BASE_URL'',
      ''TestProductRoutes'']"

text \<open>The same module with the four missing names bound.\<close>

definition completed_globals :: globals where
  "completed_globals =
     test_routes_globals @ [''request'', ''Category'', ''abort'', ''check_content_type'']"

subsection \<open>Update and delete\<close>

text \<open>
  Modelled from the spec: \<open>check_content_type\<close>, of which only the call is among
  the sources: the handler "requires a JSON content type (415 if absent/incorrect)".
  The specification does not give the text of the message.
\<close>

definition check_content_type :: "string \<Rightarrow> request \<Rightarrow> error + unit" where
  "check_content_type expected req =
     (if content_type req = Some expected then Inr ()
      else Inl (HTTPException 415 (''Content-Type must be '' @ expected)))"

text \<open>The message of the 404: \<^verbatim>\<open>f"Product with id '{product_id}' was not found."\<close>\<close>

definition not_found_message :: "nat \<Rightarrow> string" where
  "not_found_message product_id =
     ''Product with id '' @ [CHR 0x27] @ str_nat product_id @ [CHR 0x27] @ '' was not found.''"

text \<open>
  \<open>update_products\<close> (lines 234--254). The path converter \<^verbatim>\<open><int:product_id>\<close>
  admits non-negative integers only. An exception leaves the store as it was.
\<close>

definition update_products ::
  "globals \<Rightarrow> string list \<Rightarrow> store \<Rightarrow> nat \<Rightarrow> request \<Rightarrow> error + (store \<times> response)" where
  "update_products G Category st product_id req =
     need G [''app'', ''check_content_type'']
       (case check_content_type ''application/json'' req of
          Inl e \<Rightarrow> Inl e
        | Inr _ \<Rightarrow>
            need G [''Product'']
              (case Product_find st product_id of
                 None \<Rightarrow>
                   need G [''abort'', ''status'']
                     (Inl (HTTPException 404 (not_found_message product_id)))
               | Some found \<Rightarrow>
                   need G [''request'']
                     (case get_json req of
                        Inl e \<Rightarrow> Inl e
                      | Inr data \<Rightarrow>
                          (case deserialize Category found data of
                             Inl e \<Rightarrow> Inl e
                           | Inr deserialized \<Rightarrow>
                               (let product = deserialized\<lparr>id' := Some product_id\<rparr>
                                in case Product_update st product of
                                     Inl e \<Rightarrow> Inl e
                                   | Inr st' \<Rightarrow>
                                       need G [''status'']
                                         (Inr (st', (JsonBody (serialize product), 200))))))))"

text \<open>\<open>delete_products\<close> (lines 261--274).\<close>

definition delete_products :: "globals \<Rightarrow> store \<Rightarrow> nat \<Rightarrow> error + (store \<times> response)" where
  "delete_products G st product_id =
     need G [''app'', ''Product'']
       (let st' = (case Product_find st product_id of
                     Some product \<Rightarrow> Product_delete st product
                   | None \<Rightarrow> st)
        in need G [''status''] (Inr (st', (TextBody '''', 204))))"

subsection \<open>Listing\<close>

text \<open>
  The query string, as \<open>request.args.get\<close> reads it: the value of a parameter, or
  \<open>None\<close>. \<open>truthy\<close> is Python's truth value of such a result, as in \<open>if name:\<close>.
\<close>

type_synonym args = "string \<rightharpoonup> string"

fun truthy :: "string option \<Rightarrow> bool" where
  "truthy None = False"
| "truthy (Some s) = (s \<noteq> [])"

definition results :: "product list \<Rightarrow> response" where
  "results products = (JsonBody (JArr (map serialize products)), 200)"

text \<open>The first definition of \<open>list_products\<close> (lines 280--289).\<close>

definition list_products_first :: "globals \<Rightarrow> store \<Rightarrow> args \<Rightarrow> error + response" where
  "list_products_first G st query =
     need G [''app'', ''Product'', ''status''] (Inr (results (Product_all st)))"

text \<open>
  The second definition of \<open>list_products\<close> (lines 295--324). \<open>upper\<close> is Python's
  \<open>str.upper\<close>.
\<close>

definition list_products ::
  "globals \<Rightarrow> (string \<Rightarrow> string) \<Rightarrow> string list \<Rightarrow> store \<Rightarrow> args \<Rightarrow> error + response" where
  "list_products G upper Category st query =
     need G [''app'', ''request'']
       (let name_arg = query ''name'';
            category_arg = query ''category'';
            available_arg = query ''available''
        in if truthy name_arg then
             need G [''Product'', ''status'']
               (Inr (results (Product_find_by_name st (the name_arg))))
           else if truthy category_arg then
             need G [''Category'']
               (case getattr Category (upper (the category_arg)) of
                  Inl e \<Rightarrow> Inl e
                | Inr category_value \<Rightarrow>
                    need G [''Product'', ''status'']
                      (Inr (results (Product_find_by_category st category_value))))
           else if truthy available_arg then
             (let available_value = lower (the available_arg) \<in> set [''true'', ''yes'', ''1'']
              in need G [''Product'', ''status'']
                   (Inr (results (Product_find_by_availability st available_value))))
           else
             need G [''Product'', ''status''] (Inr (results (Product_all st))))"

text \<open>
  Modelled from the spec: the handler of \<^verbatim>\<open>GET /products/<id>\<close>, which "returns 200
  with the serialized product if found; else 404 with a structured error body
  containing a human-readable message naming the missing id", the message being
  \<open>Product with id '{id}' was not found.\<close>
\<close>

definition get_products :: "store \<Rightarrow> nat \<Rightarrow> error + response" where
  "get_products st product_id =
     (case Product_find st product_id of
        None \<Rightarrow> Inl (HTTPException 404 (not_found_message product_id))
      | Some product \<Rightarrow> Inr (JsonBody (serialize product), 200))"

subsection \<open>From a raised exception to the answer\<close>

text \<open>
  Modelled from the spec: the error handlers. "All errors surface as structured
  JSON with at least a message field": an aborted request answers with the status
  of the abort and the body \<open>{"message": ...}\<close>, a validation error with 400. An
  exception no handler is registered for (\<open>AttributeError\<close>, \<open>NameError\<close>) is "an
  unhandled failure of the request": no handler of the service shapes an answer.
\<close>

datatype outcome = Response response | Unhandled error

definition error_outcome :: "error \<Rightarrow> outcome" where
  "error_outcome e =
     (case e of
        HTTPException code message \<Rightarrow>
          Response (JsonBody (JObj [(''message'', JStr message)]), code)
      | DataValidationError message \<Rightarrow>
          Response (JsonBody (JObj [(''message'', JStr message)]), 400)
      | AttributeError a \<Rightarrow> Unhandled e
      | NameError n \<Rightarrow> Unhandled e)"

definition respond :: "error + response \<Rightarrow> outcome" where
  "respond r = (case r of Inl e \<Rightarrow> error_outcome e | Inr resp \<Rightarrow> Response resp)"

definition respond_store :: "store \<Rightarrow> error + (store \<times> response) \<Rightarrow> store \<times> outcome" where
  "respond_store st r =
     (case r of Inl e \<Rightarrow> (st, error_outcome e) | Inr (st', resp) \<Rightarrow> (st', Response resp))"

text \<open>A client error is an answer with a status from 400 to 499.\<close>

fun client_error :: "outcome \<Rightarrow> bool" where
  "client_error (Response (b, code)) = (400 \<le> code \<and> code < 500)"
| "client_error (Unhandled e) = False"

section \<open>Examples\<close>

text \<open>
  The members the specification names for the enumeration, two products of a
  store, and a body for \<^verbatim>\<open>PUT /products/1\<close> that carries another id.
\<close>

definition Category_example :: "string list" where
  "Category_example = [''UNKNOWN'', ''CLOTHS'', ''FOOD'']"

definition hat :: product where
  "hat = \<lparr>id' = Some 1, name = ''Hat'', description = ''A red fedora'',
          price = Decimal False 1250 2, available = True, category = ''CLOTHS''\<rparr>"

definition pie :: product where
  "pie = \<lparr>id' = Some 2, name = ''Pie'', description = ''Apple'',
          price = Decimal False 399 2, available = False, category = ''FOOD''\<rparr>"

definition cap_request :: request where
  "cap_request = \<lparr>content_type = Some ''application/json'',
     json_body = Some (JObj [(''id'', JNum 99), (''name'', JStr ''Cap''),
       (''description'', JStr ''Updated Description''), (''price'', JStr ''9.99''),
       (''available'', JBool True), (''category'', JStr ''CLOTHS'')])\<rparr>"



section \<open>Printing and parsing numbers\<close>

text \<open>
  \<open>str_nat\<close> writes the decimal digits of a number and \<open>parse_nat\<close> reads them
  back; a price written by \<open>str_decimal\<close> is read back by \<open>parse_decimal\<close> as the
  same decimal, sign, coefficient and number of places.
\<close>

lemma digit_val_digit_chars: "k < 10 \<Longrightarrow> digit_val (digit_chars ! k) = Some k"
proof -
  assume "k < 10"
  then have "k \<in> {0, 1, 2, 3, 4, 5, 6, 7, 8, 9}" by auto
  then show ?thesis
    by (auto simp: digit_val_def digit_chars_def upt_rec)
qed

lemma digit_val_digit_char: "digit_val (digit_char d) = Some (d mod 10)"
  by (simp add: digit_char_def digit_val_digit_chars)

lemma digit_char_in: "digit_char d \<in> set digit_chars"
proof -
  have "d mod 10 < length digit_chars" by (simp add: digit_chars_def)
  then show ?thesis unfolding digit_char_def by (rule nth_mem)
qed

lemma str_nat_digits: "set (str_nat n) \<subseteq> set digit_chars"
proof (induction n rule: str_nat.induct)
  case (1 n)
  show ?case
  proof (cases "n < 10")
    case True
    then show ?thesis by (subst str_nat.simps) (simp add: digit_char_in)
  next
    case False
    with 1 show ?thesis by (subst str_nat.simps) (simp add: digit_char_in)
  qed
qed

lemma str_nat_nonempty: "str_nat n \<noteq> []"
  by (subst str_nat.simps) simp

lemma parse_digits_append:
  "parse_digits (xs @ ys) acc = Option.bind (parse_digits xs acc) (parse_digits ys)"
  by (induction xs arbitrary: acc) (auto split: option.splits)

lemma parse_digits_str_nat: "parse_digits (str_nat n) 0 = Some n"
proof (induction n rule: str_nat.induct)
  case (1 n)
  show ?case
  proof (cases "n < 10")
    case True
    then show ?thesis
      by (subst str_nat.simps) (simp add: digit_val_digit_char)
  next
    case False
    with 1 have "parse_digits (str_nat (n div 10)) 0 = Some (n div 10)" by simp
    with False show ?thesis
      by (subst str_nat.simps) (simp add: parse_digits_append digit_val_digit_char)
  qed
qed

lemma parse_nat_str_nat: "parse_nat (str_nat n) = Some n"
  by (simp add: parse_nat_def str_nat_nonempty parse_digits_str_nat)

lemma parse_digits_zeros: "parse_digits (replicate m (CHR ''0'')) 0 = Some 0"
  by (induction m) (simp_all add: digit_val_def digit_chars_def upt_rec)

lemma parse_digits_pad_zeros: "parse_digits (pad_zeros m (str_nat n)) 0 = Some n"
  by (simp add: pad_zeros_def parse_digits_append parse_digits_zeros parse_digits_str_nat)

lemma pad_zeros_digits: "set (pad_zeros m (str_nat n)) \<subseteq> set digit_chars"
  using str_nat_digits [of n] by (auto simp: pad_zeros_def digit_chars_def)

lemma length_pad_zeros: "m \<le> length (pad_zeros m ds)"
  by (simp add: pad_zeros_def)

lemma no_point: "set ds \<subseteq> set digit_chars \<Longrightarrow> \<forall>c\<in>set ds. c \<noteq> CHR ''.''"
  by (auto simp: digit_chars_def)

lemma no_minus: "set ds \<subseteq> set digit_chars \<Longrightarrow> ds \<noteq> [] \<Longrightarrow> hd ds \<noteq> CHR ''-''"
  by (cases ds) (auto simp: digit_chars_def)

lemma parse_unsigned_plain:
  assumes "set ds \<subseteq> set digit_chars" "ds \<noteq> []" "parse_digits ds 0 = Some c"
  shows "parse_unsigned neg ds = Some (Decimal neg c 0)"
proof -
  from assms(1) have np: "\<forall>c\<in>set ds. c \<noteq> CHR ''.''" by (rule no_point)
  then have tw: "takeWhile (\<lambda>c. c \<noteq> CHR ''.'') ds = ds"
    and dw: "dropWhile (\<lambda>c. c \<noteq> CHR ''.'') ds = []"
    by simp_all
  show ?thesis
    unfolding parse_unsigned_def Let_def tw dw using assms(2,3) by (simp add: parse_nat_def)
qed

lemma parse_unsigned_point:
  assumes "set ds \<subseteq> set digit_chars" "k < length ds" "0 < k" "parse_digits ds 0 = Some c"
  shows "parse_unsigned neg (take (length ds - k) ds @ ''.'' @ drop (length ds - k) ds)
           = Some (Decimal neg c k)"
proof -
  let ?ip = "take (length ds - k) ds" and ?fp = "drop (length ds - k) ds"
  from assms(1) have "\<forall>c\<in>set ?ip. c \<noteq> CHR ''.''"
    using no_point by (meson in_set_takeD)
  then have tw: "takeWhile (\<lambda>c. c \<noteq> CHR ''.'') (?ip @ CHR ''.'' # ?fp) = ?ip"
    and dw: "dropWhile (\<lambda>c. c \<noteq> CHR ''.'') (?ip @ CHR ''.'' # ?fp) = CHR ''.'' # ?fp"
    by (simp_all add: takeWhile_append2 dropWhile_append2)
  from assms(2,3) have ne: "?ip \<noteq> []" "?fp \<noteq> []" and len: "length ?fp = k" by auto
  have "parse_digits (?ip @ ?fp) 0 = Some c" using assms(4) by simp
  then show ?thesis
    unfolding parse_unsigned_def Let_def append_Cons append_Nil tw dw using ne len by simp
qed

lemma parse_unsigned_str:
  "parse_unsigned neg
     (let ds = pad_zeros (Suc k) (str_nat c); j = length ds - k
      in if k = 0 then ds else take j ds @ ''.'' @ drop j ds) = Some (Decimal neg c k)"
proof (cases "k = 0")
  case True
  have "pad_zeros (Suc 0) (str_nat c) \<noteq> []" using length_pad_zeros [of "Suc 0" "str_nat c"] by auto
  with True show ?thesis
    by (simp add: Let_def parse_unsigned_plain pad_zeros_digits parse_digits_pad_zeros)
next
  case False
  have "k < length (pad_zeros (Suc k) (str_nat c))"
    using length_pad_zeros [of "Suc k" "str_nat c"] by simp
  with False show ?thesis
    using parse_unsigned_point [OF pad_zeros_digits _ _ parse_digits_pad_zeros, of k "Suc k" c neg]
    by (simp add: Let_def)
qed

lemma parse_decimal_str_decimal: "parse_decimal (str_decimal d) = Some d"
proof -
  obtain neg c k where d: "d = Decimal neg c k" by (cases d)
  define body where "body = (let ds = pad_zeros (Suc k) (str_nat c); j = length ds - k
      in if k = 0 then ds else take j ds @ ''.'' @ drop j ds)"
  have s: "str_decimal d = (if neg then ''-'' else '''') @ body"
    by (simp add: d str_decimal_def Let_def body_def)
  have pu: "parse_unsigned b body = Some (Decimal b c k)" for b
    unfolding body_def by (rule parse_unsigned_str)
  have pad: "pad_zeros (Suc k) (str_nat c) \<noteq> []" "k < length (pad_zeros (Suc k) (str_nat c))"
    using length_pad_zeros [of "Suc k" "str_nat c"] by auto
  then have "body \<noteq> []" "hd body = hd (pad_zeros (Suc k) (str_nat c))"
    by (auto simp: body_def Let_def hd_append)
  with pad(1) have "body \<noteq> []" "hd body \<noteq> CHR ''-''"
    using no_minus [OF pad_zeros_digits, of "Suc k" c] by simp_all
  then obtain x xs where b: "body = x # xs" "x \<noteq> CHR ''-''" by (cases body) auto
  have "parse_decimal (str_decimal d) = Some (Decimal neg c k)"
  proof (cases neg)
    case True
    then show ?thesis unfolding s parse_decimal_def using pu [of True] by simp
  next
    case False
    then show ?thesis unfolding s parse_decimal_def using pu [of False] b by simp
  qed
  then show ?thesis by (simp add: d)
qed

section \<open>Reading global names\<close>


lemma need_unbound: "n \<notin> set G \<Longrightarrow> need G (n # ns) k = Inl (NameError n)"
  by simp

lemma request_unbound: "''request'' \<notin> set test_routes_globals"
  by (simp add: test_routes_globals_def)

lemma check_content_type_unbound: "''check_content_type'' \<notin> set test_routes_globals"
  by (simp add: test_routes_globals_def)

lemma app_bound: "''app'' \<in> set test_routes_globals"
  by (simp add: test_routes_globals_def)

lemma completed_bound:
  "set [''app'', ''request'', ''Category'', ''Product'', ''status'', ''abort'',
        ''check_content_type''] \<subseteq> set completed_globals"
  by (simp add: completed_globals_def test_routes_globals_def)

section \<open>Case of letters\<close>











section \<open>The store\<close>

lemma find_Some_holds: "find P xs = Some x \<Longrightarrow> P x \<and> x \<in> set xs"
  by (induction xs) (auto split: if_splits)


lemma find_filter_other:
  "(\<And>x. P x \<Longrightarrow> Q x) \<Longrightarrow> find P (filter Q xs) = find P xs"
  by (induction xs) auto

lemma Product_find_id: "Product_find st i = Some p \<Longrightarrow> id' p = Some i \<and> p \<in> set st"
  unfolding Product_find_def by (rule find_Some_holds)

lemma Product_find_None: "Product_find st i = None \<longleftrightarrow> (\<forall>p\<in>set st. id' p \<noteq> Some i)"
  by (auto simp: Product_find_def find_None_iff)


section \<open>Deleting\<close>

lemma delete_products_bound:
  assumes "set [''app'', ''Product'', ''status''] \<subseteq> set G"
  shows "delete_products G st i = Inr (filter (\<lambda>q. id' q \<noteq> Some i) st, (TextBody '''', 204))"
proof (cases "Product_find st i")
  case None
  then have "filter (\<lambda>q. id' q \<noteq> Some i) st = st" by (simp add: Product_find_None)
  with None assms show ?thesis by (simp add: delete_products_def)
next
  case (Some p)
  then have "id' p = Some i" using Product_find_id by blast
  with Some assms show ?thesis by (simp add: delete_products_def Product_delete_def)
qed

lemma delete_names_bound: "set [''app'', ''Product'', ''status''] \<subseteq> set test_routes_globals"
  by (simp add: test_routes_globals_def)

text \<open>
  Claim C7. For every id, in the store or not, \<open>DELETE /products/{id}\<close> answers 204
  with an empty body and never raises: the records with that id are removed, every
  other record stays, a store without the id is left as it is, and a second delete
  answers the same and changes nothing more.
\<close>

theorem delete_products_always_204:
  "delete_products test_routes_globals st i =
     Inr (filter (\<lambda>q. id' q \<noteq> Some i) st, (TextBody '''', 204))
   \<and> respond_store st (delete_products test_routes_globals st i) =
       (filter (\<lambda>q. id' q \<noteq> Some i) st, Response (TextBody '''', 204))
   \<and> Product_find (filter (\<lambda>q. id' q \<noteq> Some i) st) i = None
   \<and> (\<forall>j. j \<noteq> i \<longrightarrow> Product_find (filter (\<lambda>q. id' q \<noteq> Some i) st) j = Product_find st j)
   \<and> (Product_find st i = None \<longrightarrow> filter (\<lambda>q. id' q \<noteq> Some i) st = st)
   \<and> delete_products test_routes_globals (filter (\<lambda>q. id' q \<noteq> Some i) st) i =
       Inr (filter (\<lambda>q. id' q \<noteq> Some i) st, (TextBody '''', 204))"
proof -
  let ?st' = "filter (\<lambda>q. id' q \<noteq> Some i) st"
  have del: "delete_products test_routes_globals xs i =
      Inr (filter (\<lambda>q. id' q \<noteq> Some i) xs, (TextBody '''', 204))" for xs
    using delete_names_bound by (rule delete_products_bound)
  have gone: "Product_find ?st' i = None" by (simp add: Product_find_None)
  have noop: "Product_find st i = None \<longrightarrow> ?st' = st" by (simp add: Product_find_None)
  have others: "Product_find ?st' j = Product_find st j" if "j \<noteq> i" for j
    unfolding Product_find_def using that by (intro find_filter_other) auto
  have twice: "delete_products test_routes_globals ?st' i = Inr (?st', (TextBody '''', 204))"
    by (simp add: del)
  show ?thesis using gone noop others twice by (simp add: del respond_store_def)
qed

theorem delete_products_always_204_witness:
  "delete_products test_routes_globals [hat, pie] 1 = Inr ([pie], (TextBody '''', 204))
   \<and> Product_find [pie] 1 = None
   \<and> (2::nat) \<noteq> 1 \<and> Product_find [pie] 2 = Product_find [hat, pie] 2
   \<and> Product_find [hat, pie] 7 = None
   \<and> delete_products test_routes_globals [hat, pie] 7 = Inr ([hat, pie], (TextBody '''', 204))
   \<and> delete_products test_routes_globals [pie] 1 = Inr ([pie], (TextBody '''', 204))"
  using delete_products_always_204 [of "[hat, pie]" 1] delete_products_always_204 [of "[hat, pie]" 7]
  by (simp add: hat_def pie_def Product_find_def)

section \<open>Listing and filtering\<close>

lemmas list_defs = list_products_def Let_def results_def Product_all_def Product_find_by_name_def
  Product_find_by_category_def Product_find_by_availability_def getattr_def


lemma list_products_NameError:
  "list_products test_routes_globals upper Category st query = Inl (NameError ''request'')"
  by (simp add: list_products_def test_routes_globals_def)

lemma list_products_bound:
  assumes "set [''app'', ''request'', ''Category'', ''Product'', ''status''] \<subseteq> set G"
  shows "list_products G upper Category st query =
     (if truthy (query ''name'') then
        Inr (JsonBody (JArr (map serialize (filter (\<lambda>p. name p = the (query ''name'')) st))), 200)
      else if truthy (query ''category'') then
        (if upper (the (query ''category'')) \<in> set Category then
           Inr (JsonBody (JArr (map serialize
             (filter (\<lambda>p. category p = upper (the (query ''category''))) st))), 200)
         else Inl (AttributeError (upper (the (query ''category'')))))
      else if truthy (query ''available'') then
        Inr (JsonBody (JArr (map serialize
          (filter (\<lambda>p. available p = (lower (the (query ''available'')) \<in> {''true'', ''yes'', ''1''}))
             st))), 200)
      else Inr (JsonBody (JArr (map serialize st)), 200))"
  using assms by (simp add: list_defs)

text \<open>
  With the names bound, a parameter with the empty string as its value is treated
  as absent, whatever the other parameters are, and the answer falls through to the
  next filter: an empty \<open>name\<close> leaves the choice to \<open>category\<close>, empty \<open>name\<close> and
  \<open>category\<close> leave it to \<open>available\<close>, and three empty values answer with every
  record.
\<close>

lemma list_products_fall_through:
  assumes "set [''app'', ''request'', ''Category'', ''Product'', ''status''] \<subseteq> set G"
  shows "list_products G upper Category st (query(k \<mapsto> '''')) =
           list_products G upper Category st (query(k := None))"
    and "upper c \<in> set Category \<Longrightarrow> c \<noteq> [] \<Longrightarrow>
         list_products G upper Category st (query(''name'' \<mapsto> '''', ''category'' \<mapsto> c)) =
           Inr (JsonBody (JArr (map serialize (filter (\<lambda>p. category p = upper c) st))), 200)"
    and "a \<noteq> [] \<Longrightarrow>
         list_products G upper Category st
             (query(''name'' \<mapsto> '''', ''category'' \<mapsto> '''', ''available'' \<mapsto> a)) =
           Inr (JsonBody (JArr (map serialize
             (filter (\<lambda>p. available p = (lower a \<in> {''true'', ''yes'', ''1''})) st))), 200)"
    and "list_products G upper Category st
             (query(''name'' \<mapsto> '''', ''category'' \<mapsto> '''', ''available'' \<mapsto> '''')) =
           Inr (JsonBody (JArr (map serialize st)), 200)"
  using assms by (simp_all add: list_products_bound del: set_simps)







text \<open>
  Claim C10, at a request the code fails on. \<open>GET /products?available=\<close> is not
  answered with every record: the handler reads \<open>request\<close>, which the module does not
  bind, and raises \<open>NameError\<close> before it looks at a parameter, whatever the store and
  the other parameters are. No handler shapes an answer from that exception.
\<close>

theorem empty_available_raises_NameError:
  "list_products test_routes_globals upper Category st (query(''available'' \<mapsto> ''''))
     = Inl (NameError ''request'')
   \<and> respond (list_products test_routes_globals upper Category st [''available'' \<mapsto> ''''])
     = Unhandled (NameError ''request'')"
  by (simp add: list_products_NameError respond_def error_outcome_def)

text \<open>
  Claim C2, at a request the code fails on. \<open>GET /products?category=bogus\<close> is not
  answered with a client error: the handler raises \<open>NameError\<close> on \<open>request\<close>, and
  with the missing names bound it raises the \<open>AttributeError\<close> of \<open>getattr\<close>, which
  nothing catches. Neither is an answer with a status from 400 to 499.
\<close>

theorem unknown_category_unhandled:
  "list_products test_routes_globals upper Category st [''category'' \<mapsto> ''bogus'']
     = Inl (NameError ''request'')
   \<and> \<not> client_error (respond
         (list_products test_routes_globals upper Category st [''category'' \<mapsto> ''bogus'']))
   \<and> ascii_upper ''bogus'' \<notin> set Category_example
   \<and> list_products completed_globals ascii_upper Category_example [hat, pie]
         [''category'' \<mapsto> ''bogus'']
       = Inl (AttributeError ''BOGUS'')
   \<and> \<not> client_error (respond
         (list_products completed_globals ascii_upper Category_example [hat, pie]
            [''category'' \<mapsto> ''bogus'']))"
proof -
  have b: "set [''app'', ''request'', ''Category'', ''Product'', ''status''] \<subseteq> set completed_globals"
    using completed_bound by simp
  have u: "ascii_upper ''bogus'' = ''BOGUS''"
    by (simp add: ascii_upper_def upper_char_def ascii_lowercase_def ascii_uppercase_def)
  show ?thesis
    by (simp add: list_products_NameError list_products_bound [OF b] u Category_example_def
        respond_def error_outcome_def)
qed

lemma list_products_unknown_category:
  assumes "set [''app'', ''request'', ''Category'', ''Product'', ''status''] \<subseteq> set G"
    and "\<not> truthy (query ''name'')" and "query ''category'' = Some c" and "c \<noteq> []"
    and "upper c \<notin> set Category"
  shows "respond (list_products G upper Category st query) = Unhandled (AttributeError (upper c))"
  using assms(2-5) by (simp add: list_products_bound [OF assms(1)] respond_def error_outcome_def)

text \<open>
  Claim C4, at a request the code fails on. Whichever of the two definitions of
  \<open>list_products\<close> answers \<open>GET /products?name=Pie\<close>, the answer is not the records
  named \<open>Pie\<close>: the first definition answers with every record, and the second raises
  \<open>NameError\<close> on \<open>request\<close>.
\<close>

theorem neither_definition_filters:
  "list_products_first test_routes_globals [hat, pie] [''name'' \<mapsto> ''Pie'']
     = Inr (JsonBody (JArr [serialize hat, serialize pie]), 200)
   \<and> list_products test_routes_globals upper Category [hat, pie] [''name'' \<mapsto> ''Pie'']
     = Inl (NameError ''request'')
   \<and> Product_find_by_name [hat, pie] ''Pie'' = [pie]"
proof -
  have "list_products_first test_routes_globals [hat, pie] [''name'' \<mapsto> ''Pie'']
     = Inr (JsonBody (JArr [serialize hat, serialize pie]), 200)"
    by (simp add: list_products_first_def results_def Product_all_def test_routes_globals_def)
  moreover have "Product_find_by_name [hat, pie] ''Pie'' = [pie]"
    by (simp add: Product_find_by_name_def hat_def pie_def)
  ultimately show ?thesis
    by (simp add: list_products_NameError)
qed

lemma list_products_first_agrees:
  assumes "set [''app'', ''request'', ''Category'', ''Product'', ''status''] \<subseteq> set G"
    and "\<not> truthy (query ''name'')" and "\<not> truthy (query ''category'')"
    and "\<not> truthy (query ''available'')"
  shows "list_products G upper Category st query = list_products_first G st query"
  using assms by (simp add: list_products_bound list_products_first_def results_def Product_all_def)

section \<open>Updating\<close>


lemma update_products_NameError:
  "update_products test_routes_globals Category st i req = Inl (NameError ''check_content_type'')"
  by (simp add: update_products_def app_bound check_content_type_unbound)


lemma update_products_bound:
  assumes "set [''app'', ''check_content_type'', ''Product'', ''abort'', ''status'', ''request'']
             \<subseteq> set G"
  shows "update_products G Category st i req =
     (case check_content_type ''application/json'' req of
        Inl e \<Rightarrow> Inl e
      | Inr _ \<Rightarrow>
          (case Product_find st i of
             None \<Rightarrow> Inl (HTTPException 404 (not_found_message i))
           | Some found \<Rightarrow>
               (case get_json req of
                  Inl e \<Rightarrow> Inl e
                | Inr data \<Rightarrow>
                    (case deserialize Category found data of
                       Inl e \<Rightarrow> Inl e
                     | Inr d \<Rightarrow>
                         (case Product_update st (d\<lparr>id' := Some i\<rparr>) of
                            Inl e \<Rightarrow> Inl e
                          | Inr st' \<Rightarrow> Inr (st', (JsonBody (serialize (d\<lparr>id' := Some i\<rparr>)), 200)))))))"
  using assms by (simp add: update_products_def Let_def split: sum.splits option.splits)









section \<open>Ids that are not in the store, and the content type\<close>

lemma str_nat_0: "str_nat 0 = ''0''"
  by (simp add: str_nat.simps digit_char_def digit_chars_def)

lemma update_products_not_found:
  assumes "set [''app'', ''check_content_type'', ''Product'', ''abort'', ''status'', ''request'']
             \<subseteq> set G"
    and "content_type req = Some ''application/json''"
    and "Product_find st i = None"
  shows "respond_store st (update_products G Category st i req) =
           (st, Response (JsonBody (JObj [(''message'', JStr (not_found_message i))]), 404))"
  using assms(2,3)
  by (simp add: update_products_bound [OF assms(1)] check_content_type_def respond_store_def
      error_outcome_def)

lemma get_products_not_found:
  assumes "Product_find st i = None"
  shows "respond (get_products st i) =
           Response (JsonBody (JObj [(''message'', JStr (not_found_message i))]), 404)"
  using assms by (simp add: get_products_def respond_def error_outcome_def)

lemma update_products_415_first:
  assumes "set [''app'', ''check_content_type'', ''Product'', ''abort'', ''status'', ''request'']
             \<subseteq> set G"
    and "content_type req \<noteq> Some ''application/json''"
  shows "\<exists>message. respond_store st (update_products G Category st i req) =
           (st, Response (JsonBody (JObj [(''message'', JStr message)]), 415))"
  using assms(2)
  by (simp add: update_products_bound [OF assms(1)] check_content_type_def respond_store_def
      error_outcome_def)

text \<open>
  Claim C6, at a request the code fails on. \<open>PUT /products/0\<close> with the content type
  \<open>application/json\<close>, on a store that holds the ids 1 and 2 only, is not answered
  with 404: the first line of the handler reads \<open>check_content_type\<close>, which the
  module does not bind, and raises \<open>NameError\<close>; no handler shapes an answer from it,
  and the message \<open>Product with id '0' was not found.\<close> is never produced.
\<close>

theorem missing_id_put_raises_NameError:
  "Product_find [hat, pie] 0 = None
   \<and> content_type cap_request = Some ''application/json''
   \<and> update_products test_routes_globals Category_example [hat, pie] 0 cap_request
       = Inl (NameError ''check_content_type'')
   \<and> respond_store [hat, pie]
         (update_products test_routes_globals Category_example [hat, pie] 0 cap_request)
       = ([hat, pie], Unhandled (NameError ''check_content_type''))
   \<and> not_found_message 0 = ''Product with id '' @ [CHR 0x27] @ ''0'' @ [CHR 0x27] @ '' was not found.''"
  by (simp add: update_products_NameError respond_store_def error_outcome_def Product_find_def
      hat_def pie_def cap_request_def not_found_message_def str_nat_0)

text \<open>
  Claim C9, at a request the code fails on. \<open>PUT /products/0\<close> with the content type
  \<open>text/plain\<close>, or with no content type, is not answered with 415: the handler
  raises \<open>NameError\<close> on \<open>check_content_type\<close> before any check of the content type
  runs, whatever the store holds, and no handler shapes an answer from it.
\<close>

theorem wrong_content_type_raises_NameError:
  "update_products test_routes_globals Category st 0
       \<lparr>content_type = Some ''text/plain'', json_body = None\<rparr>
     = Inl (NameError ''check_content_type'')
   \<and> respond_store st (update_products test_routes_globals Category st 0
         \<lparr>content_type = Some ''text/plain'', json_body = None\<rparr>)
     = (st, Unhandled (NameError ''check_content_type''))
   \<and> respond_store st (update_products test_routes_globals Category st 0
         \<lparr>content_type = None, json_body = None\<rparr>)
     = (st, Unhandled (NameError ''check_content_type''))
   \<and> \<not> client_error (Unhandled (NameError ''check_content_type''))"
  by (simp add: update_products_NameError respond_store_def error_outcome_def)

section \<open>Serializing and deserializing\<close>

text \<open>
  Claim C8. For every product \<open>p\<close> that is a valid payload (a non-empty name and a
  category that is a member of the enumeration), deserializing the serialization of
  \<open>p\<close> onto any record \<open>q\<close> succeeds and gives \<open>p\<close> in every field but the id, which
  stays the id of \<open>q\<close>: name, description, price, available and category are those
  of \<open>p\<close>.
\<close>

theorem deserialize_serialize:
  assumes "name p \<noteq> []" and "category p \<in> set Category"
  shows "deserialize Category q (serialize p) = Inr (p\<lparr>id' := id' q\<rparr>)"
  using assms
  by (simp add: deserialize_def serialize_def coerce_price_def parse_decimal_str_decimal
      getattr_def)

theorem deserialize_serialize_witness:
  "name hat \<noteq> [] \<and> category hat \<in> set Category_example
   \<and> serialize hat = JObj [(''id'', JNum 1), (''name'', JStr ''Hat''),
        (''description'', JStr ''A red fedora''), (''price'', JStr ''12.50''),
        (''available'', JBool True), (''category'', JStr ''CLOTHS'')]
   \<and> deserialize Category_example pie (serialize hat) = Inr (hat\<lparr>id' := Some 2\<rparr>)"
proof -
  have a: "name hat \<noteq> []" "category hat \<in> set Category_example"
    by (simp_all add: hat_def Category_example_def)
  have s: "str_decimal (Decimal False 1250 2) = ''12.50''"
    by (simp add: str_decimal_def pad_zeros_def str_nat.simps digit_char_def digit_chars_def
        Let_def)
  have j: "serialize hat = JObj [(''id'', JNum 1), (''name'', JStr ''Hat''),
        (''description'', JStr ''A red fedora''), (''price'', JStr ''12.50''),
        (''available'', JBool True), (''category'', JStr ''CLOTHS'')]"
    by (simp add: serialize_def hat_def s)
  have i: "id' pie = Some 2" by (simp add: pie_def)
  have d: "deserialize Category_example pie (serialize hat) = Inr (hat\<lparr>id' := Some 2\<rparr>)"
    using deserialize_serialize [OF a, of pie] by (simp only: i)
  show ?thesis
    by (intro conjI) (fact a | fact j | fact d)+
qed

end
